theory Spec2Isabelle
  imports Complex_Main "HOL-Library.Char_ord" "HOL-Library.List_Lexorder"
begin

section \<open>Tables\<close>

text \<open>
  The dashboard script \<^verbatim>\<open>dashboard_app.py\<close> works on pandas tables. A cell is a number
  (exact rationals stand for the machine floats), a boolean, a text, or the missing value
  that \<^verbatim>\<open>read_csv\<close> gives an empty field. A row is labelled by column names; a table has
  its column names and its rows in file order.
\<close>

datatype cell = Num rat | Flag bool | Txt string | NaN

type_synonym row = "(string \<times> cell) list"

record dataframe =
  columns :: "string list"
  rows :: "row list"

datatype error = KeyError string | TypeError | ValueError

definition cell_of :: "row \<Rightarrow> string \<Rightarrow> cell" where
  "cell_of r c = (case map_of r c of Some v \<Rightarrow> v | None \<Rightarrow> NaN)"

fun set_cell :: "string \<Rightarrow> cell \<Rightarrow> row \<Rightarrow> row" where
  "set_cell c v [] = [(c, v)]"
| "set_cell c v (p # ps) = (if fst p = c then (c, v) # ps else p # set_cell c v ps)"

text \<open>\<^verbatim>\<open>df[c]\<close>: the column as a series, or KeyError when the table has no such column.\<close>

definition getcol :: "dataframe \<Rightarrow> string \<Rightarrow> error + cell list" where
  "getcol df c =
     (if c \<in> set (columns df) then Inr (map (\<lambda>r. cell_of r c) (rows df))
      else Inl (KeyError c))"

text \<open>
  \<^verbatim>\<open>df[c] = values\<close>: positional assignment of a whole column; the script assigns a series
  of the table's own length.
\<close>

definition assign_col :: "string \<Rightarrow> cell list \<Rightarrow> dataframe \<Rightarrow> dataframe" where
  "assign_col c vs df =
     \<lparr>columns = (if c \<in> set (columns df) then columns df else columns df @ [c]),
      rows = map (\<lambda>(r, v). set_cell c v r) (zip (rows df) vs)\<rparr>"

text \<open>\<^verbatim>\<open>df[mask]\<close>: a new table with the rows at which the boolean mask holds.\<close>

definition mask_rows :: "bool list \<Rightarrow> dataframe \<Rightarrow> dataframe" where
  "mask_rows keep df = \<lparr>columns = columns df, rows = map snd (filter fst (zip keep (rows df)))\<rparr>"

text \<open>
  \<^verbatim>\<open>astype(str)\<close> applies Python's \<^verbatim>\<open>str\<close> to every cell. A text stays as it is and
  the missing value prints as \<^verbatim>\<open>nan\<close>; how a number or a boolean prints is Python's
  business and is the parameter \<open>fmt\<close>.
\<close>

definition astype_str :: "(cell \<Rightarrow> string) \<Rightarrow> cell \<Rightarrow> string" where
  "astype_str fmt c = (case c of Txt s \<Rightarrow> s | NaN \<Rightarrow> ''nan'' | _ \<Rightarrow> fmt c)"

subsection \<open>Series operations\<close>

text \<open>\<^verbatim>\<open>unique()\<close>: the distinct values in order of first appearance.\<close>

definition unique :: "'a list \<Rightarrow> 'a list" where
  "unique xs = rev (remdups (rev xs))"

definition dropna :: "cell list \<Rightarrow> cell list" where
  "dropna cs = filter (\<lambda>c. c \<noteq> NaN) cs"

text \<open>
  \<^verbatim>\<open>value_counts()\<close> leaves missing values out, counts each distinct value and orders the
  result by falling count. With \<^verbatim>\<open>normalize=True\<close> each count is divided by the sum of
  the counts, that is by the number of values that are not missing. Values with equal
  counts keep the order of first appearance here; no statement below depends on the order
  among them.
\<close>

definition value_counts :: "cell list \<Rightarrow> (cell \<times> nat) list" where
  "value_counts cs =
     (let xs = dropna cs
      in sort_key (\<lambda>(v, n). - int n) (map (\<lambda>v. (v, count_list xs v)) (unique xs)))"

definition value_counts_normalized :: "cell list \<Rightarrow> (cell \<times> rat) list" where
  "value_counts_normalized cs =
     (let vc = value_counts cs; total = sum_list (map snd vc)
      in map (\<lambda>(v, n). (v, of_nat n / of_nat total)) vc)"

text \<open>
  Ordering labels compares them. The script orders the \<^verbatim>\<open>Cluster\<close> labels only after
  line 24 has made each of them a \<^verbatim>\<open>str\<close>, which Python compares lexicographically by
  code point; Python refuses to order a \<^verbatim>\<open>str\<close> against another type with TypeError.
\<close>

fun label_of :: "cell \<Rightarrow> string option" where
  "label_of (Txt s) = Some s"
| "label_of _ = None"

definition sort_index :: "(cell \<times> nat) list \<Rightarrow> error + (string \<times> nat) list" where
  "sort_index vc =
     (case those (map (\<lambda>(v, n). map_option (\<lambda>l. (l, n)) (label_of v)) vc) of
        None \<Rightarrow> Inl TypeError
      | Some kv \<Rightarrow> Inr (sort_key fst kv))"

definition sorted_labels :: "cell list \<Rightarrow> error + string list" where
  "sorted_labels cs =
     (case those (map label_of cs) of None \<Rightarrow> Inl TypeError | Some ls \<Rightarrow> Inr (sort ls))"

text \<open>
  \<^verbatim>\<open>mean()\<close> and \<^verbatim>\<open>sum()\<close> skip missing values and read a boolean as 0 or 1; pandas 2
  raises TypeError when the column holds text. The mean of no values is the missing value.
\<close>

fun is_txt :: "cell \<Rightarrow> bool" where
  "is_txt (Txt s) = True"
| "is_txt _ = False"

fun numbers :: "cell list \<Rightarrow> rat list" where
  "numbers [] = []"
| "numbers (Num q # cs) = q # numbers cs"
| "numbers (Flag b # cs) = (if b then 1 else 0) # numbers cs"
| "numbers (_ # cs) = numbers cs"

definition numeric_values :: "cell list \<Rightarrow> error + rat list" where
  "numeric_values cs = (if list_ex is_txt cs then Inl TypeError else Inr (numbers cs))"

definition mean_series :: "cell list \<Rightarrow> error + cell" where
  "mean_series cs =
     (case numeric_values cs of
        Inl e \<Rightarrow> Inl e
      | Inr qs \<Rightarrow> Inr (if qs = [] then NaN else Num (sum_list qs / of_nat (length qs))))"

definition sum_series :: "cell list \<Rightarrow> error + rat" where
  "sum_series cs = (case numeric_values cs of Inl e \<Rightarrow> Inl e | Inr qs \<Rightarrow> Inr (sum_list qs))"

fun collect :: "(error + 'a) list \<Rightarrow> error + 'a list" where
  "collect [] = Inr []"
| "collect (Inl e # rs) = Inl e"
| "collect (Inr v # rs) = (case collect rs of Inl e \<Rightarrow> Inl e | Inr vs \<Rightarrow> Inr (v # vs))"

text \<open>
  The mean of a selection of columns (lines 70 and 72): the selection raises KeyError for
  a missing column before any mean is taken; the result is a series indexed by the column
  names.
\<close>

definition mean_of_columns :: "string list \<Rightarrow> dataframe \<Rightarrow> error + (cell \<times> cell) list" where
  "mean_of_columns cs df =
     (case collect (map (getcol df) cs) of
        Inl e \<Rightarrow> Inl e
      | Inr series \<Rightarrow>
          (case collect (map mean_series series) of
             Inl e \<Rightarrow> Inl e
           | Inr ms \<Rightarrow> Inr (zip (map Txt cs) ms)))"

text \<open>
  \<^verbatim>\<open>reset_index()\<close> turns a series into a fresh two-column table (index, values);
  assigning \<^verbatim>\<open>.columns\<close> renames the columns by position and raises ValueError when the
  number of names differs. The script overwrites the two names \<^verbatim>\<open>reset_index()\<close> gives in
  its next statement.
\<close>

definition reset_index :: "string \<Rightarrow> string \<Rightarrow> (cell \<times> cell) list \<Rightarrow> dataframe" where
  "reset_index a b series = \<lparr>columns = [a, b], rows = map (\<lambda>(k, v). [(a, k), (b, v)]) series\<rparr>"

definition rename_columns :: "string list \<Rightarrow> dataframe \<Rightarrow> dataframe" where
  "rename_columns names df =
     (let new = (\<lambda>k. case map_of (zip (columns df) names) k of Some k' \<Rightarrow> k' | None \<Rightarrow> k)
      in \<lparr>columns = names, rows = map (map (\<lambda>(k, v). (new k, v))) (rows df)\<rparr>)"

text \<open>Plotly express reads the named columns of the table it is given; a missing name is a ValueError.\<close>

definition px_column :: "dataframe \<Rightarrow> string \<Rightarrow> error + cell list" where
  "px_column df c = (case getcol df c of Inl e \<Rightarrow> Inl ValueError | Inr cs \<Rightarrow> Inr cs)"

definition px_pairs :: "dataframe \<Rightarrow> string \<Rightarrow> string \<Rightarrow> error + (cell \<times> cell) list" where
  "px_pairs df x y =
     (case px_column df x of
        Inl e \<Rightarrow> Inl e
      | Inr xs \<Rightarrow> (case px_column df y of Inl e \<Rightarrow> Inl e | Inr ys \<Rightarrow> Inr (zip xs ys)))"

text \<open>
  \<^verbatim>\<open>px.scatter(df, x, y, color, hover_data)\<close>: every named column must exist; the figure
  then holds one point per row of the table it is given, with the row's colour key.
\<close>

definition px_scatter ::
  "dataframe \<Rightarrow> string \<Rightarrow> string \<Rightarrow> string \<Rightarrow> string list \<Rightarrow> error + (cell \<times> cell \<times> cell) list" where
  "px_scatter df x y colour hover =
     (case collect (map (px_column df) ([x, y, colour] @ hover)) of
        Inl e \<Rightarrow> Inl e
      | Inr _ \<Rightarrow> Inr (map (\<lambda>r. (cell_of r x, cell_of r y, cell_of r colour)) (rows df)))"

section \<open>The page and the run of the script\<close>

text \<open>
  What a run shows, in the order of the calls that show it. Tables live in a store and
  the script's variables \<^verbatim>\<open>df_clustered\<close> and \<^verbatim>\<open>display_data\<close> hold addresses into it
  (line 61 makes the two the same object). A run is under way, has raised an exception
  that nothing catches, or was halted by \<^verbatim>\<open>st.stop()\<close>; statements after either are
  not executed. What the framework itself prints for an uncaught exception is not an
  element of the script. A variable reads 0 until its assignment, which in program order
  comes before every use; addresses are handed out by allocation only, so every read of
  the store during a run is at an allocated address. \<^verbatim>\<open>st.set_page_config\<close> (lines 7 to
  11) sets the title and the layout of the page and shows nothing.
\<close>

datatype element =
    Title string | Markdown string | Header string | Subheader string | Write string
  | SidebarHeader string | SidebarSubheader string | SidebarWrite string
  | SidebarDataframe "(string \<times> nat) list"
  | SidebarSelectbox string "string list"
  | BarChart string "(cell \<times> cell) list"
  | PieChart string "(cell \<times> cell) list"
  | ScatterChart string "(cell \<times> cell \<times> cell) list"
  | ErrorBox string | InfoBox string | WarningBox string
  | WriteCounts "(cell \<times> nat) list"

datatype status = Running | Raised error | Stopped

record run =
  heap :: "dataframe list"
  df_clustered :: nat
  display_data :: nat
  emitted :: "element list"
  status :: status

definition start :: run where
  "start = \<lparr>heap = [], df_clustered = 0, display_data = 0, emitted = [], status = Running\<rparr>"

definition emit :: "element \<Rightarrow> run \<Rightarrow> run" where
  "emit e s = s\<lparr>emitted := emitted s @ [e]\<rparr>"

definition raise :: "error \<Rightarrow> run \<Rightarrow> run" where
  "raise e s = s\<lparr>status := Raised e\<rparr>"

definition new_frame :: "dataframe \<Rightarrow> run \<Rightarrow> run" where
  "new_frame df s = s\<lparr>heap := heap s @ [df]\<rparr>"

definition set_columns :: "nat \<Rightarrow> string list \<Rightarrow> run \<Rightarrow> run" where
  "set_columns a names s =
     (if length names \<noteq> length (columns (heap s ! a)) then raise ValueError s
      else s\<lparr>heap := (heap s)[a := rename_columns names (heap s ! a)]\<rparr>)"

definition step :: "(run \<Rightarrow> run) \<Rightarrow> run \<Rightarrow> run" where
  "step f s = (if status s = Running then f s else s)"

definition show_chart ::
  "((cell \<times> cell) list \<Rightarrow> element) \<Rightarrow> nat \<Rightarrow> string \<Rightarrow> string \<Rightarrow> run \<Rightarrow> run" where
  "show_chart fig a x y s =
     (case px_pairs (heap s ! a) x y of Inl e \<Rightarrow> raise e s | Inr pts \<Rightarrow> emit (fig pts) s)"

text \<open>
  The script draws a series in three places the same way (lines 74 to 85, 88 to 99 and 105
  to 115): \<^verbatim>\<open>reset_index()\<close> makes a fresh table, its columns are renamed in place, and
  the figure reads the renamed columns of that table.
\<close>

definition chart_of_series ::
  "((cell \<times> cell) list \<Rightarrow> element) \<Rightarrow> string \<Rightarrow> string \<Rightarrow> string \<Rightarrow> string \<Rightarrow>
     (cell \<times> cell) list \<Rightarrow> run \<Rightarrow> run" where
  "chart_of_series fig a b x y series s =
     (let addr = length (heap s);
          s1 = new_frame (reset_index a b series) s;
          s2 = set_columns addr [x, y] s1
      in step (show_chart fig addr x y) s2)"

subsection \<open>Lines 13 to 24: loading\<close>

definition csv_path :: string where
  "csv_path = ''recipes_clustered_for_dashboard.csv''"

definition quoted :: "string \<Rightarrow> string" where
  "quoted s = [CHR 0x27] @ s @ [CHR 0x27]"

text \<open>
  \<open>files\<close> is the file system as \<^verbatim>\<open>read_csv\<close> sees it: the parsed table of each path
  that exists. The loader's body catches FileNotFoundError, shows the error and stops the
  run. The decorator \<^verbatim>\<open>st.cache_data\<close> keeps the table the body returned and hands each
  later run a copy of it without running the body: every run works on a table of its own,
  allocated here in the store, and this is the run in which the body is executed.
\<close>

definition load_data :: "(string \<rightharpoonup> dataframe) \<Rightarrow> string \<Rightarrow> run \<Rightarrow> run" where
  "load_data files path s =
     (case files path of
        Some df \<Rightarrow> s\<lparr>heap := heap s @ [df], df_clustered := length (heap s)\<rparr>
      | None \<Rightarrow>
          (emit (ErrorBox (''Error: The file '' @ quoted path @
             '' was not found. Make sure the CSV is in the same folder as this script.'')) s)
          \<lparr>status := Stopped\<rparr>)"

text \<open>Line 24: \<^verbatim>\<open>df_clustered['Cluster'] = df_clustered['Cluster'].astype(str)\<close>, in place.\<close>

definition cluster_as_str :: "(cell \<Rightarrow> string) \<Rightarrow> dataframe \<Rightarrow> error + dataframe" where
  "cluster_as_str fmt df =
     (case getcol df ''Cluster'' of
        Inl e \<Rightarrow> Inl e
      | Inr c \<Rightarrow> Inr (assign_col ''Cluster'' (map (\<lambda>x. Txt (astype_str fmt x)) c) df))"

definition convert_cluster :: "(cell \<Rightarrow> string) \<Rightarrow> run \<Rightarrow> run" where
  "convert_cluster fmt s =
     (let a = df_clustered s
      in case cluster_as_str fmt (heap s ! a) of
           Inl e \<Rightarrow> raise e s
         | Inr df \<Rightarrow> s\<lparr>heap := (heap s)[a := df]\<rparr>)"

definition loaded :: "(cell \<Rightarrow> string) \<Rightarrow> (string \<rightharpoonup> dataframe) \<Rightarrow> run" where
  "loaded fmt files = step (convert_cluster fmt) (load_data files csv_path start)"

subsection \<open>Lines 26 to 58: introduction, cluster summary and selector\<close>

definition newline :: string where
  "newline = [CHR 0x0A]"

definition intro :: "run \<Rightarrow> run" where
  "intro s =
     emit (SidebarHeader ''Visualization Options'')
       (emit (Markdown (newline @
          ''This interactive dashboard presents the results of the K-Means clustering analysis.'' @ newline @
          ''I have segmented recipes into **4 distinct groups** based on their nutritional characteristics, categories, and servings.'' @ newline @
          ''Use the filters in the sidebar to explore the data.'' @ newline))
         (emit (Title ''Tasty Bites - Recipe Segmentation Dashboard'') s))"

text \<open>Line 36: \<^verbatim>\<open>df_clustered['Cluster'].value_counts().sort_index()\<close>, on the full table.\<close>

definition cluster_counts :: "dataframe \<Rightarrow> error + (string \<times> nat) list" where
  "cluster_counts df =
     (case getcol df ''Cluster'' of Inl e \<Rightarrow> Inl e | Inr c \<Rightarrow> sort_index (value_counts c))"

definition cluster_summary :: "run \<Rightarrow> run" where
  "cluster_summary s =
     (let s1 = emit (SidebarSubheader ''Cluster Summary'') s
      in case cluster_counts (heap s1 ! df_clustered s1) of
           Inl e \<Rightarrow> raise e s1
         | Inr cc \<Rightarrow>
             emit (BarChart ''Distribution of Recipes by Cluster''
                     (map (\<lambda>(l, n). (Txt l, Num (of_nat n))) cc))
               (emit (SidebarDataframe cc)
                 (emit (SidebarWrite ''Number of Recipes per Cluster:'') s1)))"

text \<open>Line 53: \<^verbatim>\<open>sorted(df_clustered['Cluster'].unique())\<close>.\<close>

definition all_clusters :: "dataframe \<Rightarrow> error + string list" where
  "all_clusters df =
     (case getcol df ''Cluster'' of Inl e \<Rightarrow> Inl e | Inr c \<Rightarrow> sorted_labels (unique c))"

definition selector :: "run \<Rightarrow> run" where
  "selector s =
     (let s1 = emit (Header ''Detailed Cluster Analysis'') s
      in case all_clusters (heap s1 ! df_clustered s1) of
           Inl e \<Rightarrow> raise e s1
         | Inr ls \<Rightarrow>
             emit (SidebarSelectbox ''Select a Cluster to view its characteristics:''
                     (''All'' # ls)) s1)"

definition prepared :: "(cell \<Rightarrow> string) \<Rightarrow> (string \<rightharpoonup> dataframe) \<Rightarrow> run" where
  "prepared fmt files = step selector (step cluster_summary (step intro (loaded fmt files)))"

subsection \<open>Lines 60 to 65: the view\<close>

text \<open>
  \<open>sel\<close> is \<^verbatim>\<open>selected_cluster_id\<close>, the option the select box returns. Line 61 binds
  \<^verbatim>\<open>display_data\<close> to the object \<^verbatim>\<open>df_clustered\<close> itself; line 64 builds a new table.
\<close>

definition chart_title_suffix :: "string \<Rightarrow> string" where
  "chart_title_suffix sel =
     (if sel = ''All'' then '' (All Clusters)'' else '' (Cluster '' @ sel @ '')'')"

definition select_view :: "string \<Rightarrow> run \<Rightarrow> run" where
  "select_view sel s =
     (if sel = ''All'' then s\<lparr>display_data := df_clustered s\<rparr>
      else
        (let full = heap s ! df_clustered s
         in case getcol full ''Cluster'' of
              Inl e \<Rightarrow> raise e s
            | Inr c \<Rightarrow>
                (new_frame (mask_rows (map (\<lambda>x. x = Txt sel) c) full) s)
                \<lparr>display_data := length (heap s)\<rparr>))"

definition viewed :: "(cell \<Rightarrow> string) \<Rightarrow> (string \<rightharpoonup> dataframe) \<Rightarrow> string \<Rightarrow> run" where
  "viewed fmt files sel = step (select_view sel) (prepared fmt files)"

subsection \<open>Lines 67 to 99: average nutrition and category distribution\<close>

definition nutrition_columns :: "string list" where
  "nutrition_columns = [''calories'', ''carbohydrate'', ''sugar'', ''protein'', ''servings_numeric'']"

text \<open>Lines 70 and 72, the two branches of the test of line 69.\<close>

definition avg_branch_all :: "dataframe \<Rightarrow> error + (cell \<times> cell) list" where
  "avg_branch_all view = mean_of_columns nutrition_columns view"

definition avg_branch_cluster :: "dataframe \<Rightarrow> error + (cell \<times> cell) list" where
  "avg_branch_cluster view = mean_of_columns nutrition_columns view"

definition avg_numeric_features :: "string \<Rightarrow> dataframe \<Rightarrow> error + (cell \<times> cell) list" where
  "avg_numeric_features sel view =
     (if sel = ''All'' then avg_branch_all view else avg_branch_cluster view)"

definition averages_section :: "string \<Rightarrow> run \<Rightarrow> run" where
  "averages_section sel s =
     (let s1 = emit (Subheader (''Average Nutritional Values'' @ chart_title_suffix sel)) s
      in case avg_numeric_features sel (heap s1 ! display_data s1) of
           Inl e \<Rightarrow> raise e s1
         | Inr avg \<Rightarrow>
             chart_of_series
               (BarChart (''Average Nutritional Values'' @ chart_title_suffix sel))
               ''index'' ''0'' ''Characteristic'' ''Average Value'' avg s1)"

text \<open>Line 88: \<^verbatim>\<open>display_data['category'].value_counts(normalize=True)\<close>.\<close>

definition category_counts :: "dataframe \<Rightarrow> error + (cell \<times> rat) list" where
  "category_counts view =
     (case getcol view ''category'' of
        Inl e \<Rightarrow> Inl e
      | Inr c \<Rightarrow> Inr (value_counts_normalized c))"

definition as_cells :: "(cell \<times> rat) list \<Rightarrow> (cell \<times> cell) list" where
  "as_cells series = map (\<lambda>(v, p). (v, Num p)) series"

definition category_section :: "string \<Rightarrow> run \<Rightarrow> run" where
  "category_section sel s =
     (let s1 = emit (Subheader (''Category Distribution'' @ chart_title_suffix sel)) s
      in case category_counts (heap s1 ! display_data s1) of
           Inl e \<Rightarrow> raise e s1
         | Inr props \<Rightarrow>
             chart_of_series
               (BarChart (''Proportion of Recipe Categories'' @ chart_title_suffix sel))
               ''category'' ''proportion'' ''Category'' ''Proportion'' (as_cells props) s1)"

definition before_traffic :: "(cell \<Rightarrow> string) \<Rightarrow> (string \<rightharpoonup> dataframe) \<Rightarrow> string \<Rightarrow> run" where
  "before_traffic fmt files sel =
     step (category_section sel) (step (averages_section sel) (viewed fmt files sel))"

subsection \<open>Lines 101 to 136: traffic distribution\<close>

definition traffic_notice :: string where
  "traffic_notice = ''The original '' @ quoted ''high_traffic'' @
     '' column was not found in the loaded data for this visualization.''"

text \<open>Lines 120 to 136, the chart built from the one-hot columns.\<close>

definition traffic_fallback :: "string \<Rightarrow> run \<Rightarrow> run" where
  "traffic_fallback sel s =
     (let full = heap s ! df_clustered s; view = heap s ! display_data s
      in case (case getcol view ''high_traffic_High'' of Inl e \<Rightarrow> Inl e | Inr c \<Rightarrow> sum_series c) of
           Inl e \<Rightarrow> raise e s
         | Inr high_traffic_count \<Rightarrow>
             (case (if ''high_traffic_No_Traffic_Info'' \<in> set (columns full)
                    then (case getcol view ''high_traffic_No_Traffic_Info'' of
                            Inl e \<Rightarrow> Inl e | Inr c \<Rightarrow> sum_series c)
                    else Inr (of_nat (length (rows view)) - high_traffic_count)) of
                Inl e \<Rightarrow> raise e s
              | Inr no_traffic_info_count \<Rightarrow>
                  (let b = length (heap s);
                       s1 = new_frame
                              \<lparr>columns = [''Traffic Type'', ''Count''],
                               rows = [ [(''Traffic Type'', Txt ''High Traffic''),
                                        (''Count'', Num high_traffic_count)],
                                       [(''Traffic Type'', Txt ''No Traffic Info''),
                                        (''Count'', Num no_traffic_info_count)]]\<rparr> s
                   in show_chart
                        (PieChart (''Proportion of Recipe Traffic'' @ chart_title_suffix sel))
                        b ''Traffic Type'' ''Count'' s1)))"

definition traffic_section :: "string \<Rightarrow> run \<Rightarrow> run" where
  "traffic_section sel s =
     (let s1 = emit (Subheader (''High Traffic Distribution'' @ chart_title_suffix sel)) s
      in if ''high_traffic'' \<in> set (columns (heap s1 ! df_clustered s1)) then
           (case getcol (heap s1 ! display_data s1) ''high_traffic'' of
              Inl e \<Rightarrow> raise e s1
            | Inr c \<Rightarrow>
                chart_of_series
                  (PieChart (''Proportion of Recipe Traffic'' @ chart_title_suffix sel))
                  ''high_traffic'' ''proportion'' ''Traffic Type'' ''Proportion''
                  (as_cells (value_counts_normalized c)) s1)
         else
           (let s2 = emit (InfoBox traffic_notice) s1
            in if ''high_traffic_High'' \<in> set (columns (heap s2 ! df_clustered s2))
               then traffic_fallback sel s2 else s2))"

definition after_traffic :: "(cell \<Rightarrow> string) \<Rightarrow> (string \<rightharpoonup> dataframe) \<Rightarrow> string \<Rightarrow> run" where
  "after_traffic fmt files sel = step (traffic_section sel) (before_traffic fmt files sel)"

subsection \<open>Lines 139 to 161: projection scatter and the closing write\<close>

definition pca_warning :: string where
  "pca_warning = ''PCA components (PC1, PC2) are not available in the loaded data file. To see this visualization, please ensure PCA components are saved in the CSV.''"

text \<open>Line 160 is indented under the \<^verbatim>\<open>else\<close> of line 157.\<close>

definition pca_section :: "run \<Rightarrow> run" where
  "pca_section s =
     (let s1 = emit (Markdown (newline @
                  ''This graph shows how the clusters are distributed in a reduced two-dimensional space'' @ newline @
                  ''thanks to Principal Component Analysis (PCA).'' @ newline))
                (emit (Header '' Cluster Visualization (PCA)'') s);
          full = heap s1 ! df_clustered s1
      in if ''PC1'' \<in> set (columns full) \<and> ''PC2'' \<in> set (columns full) then
           (case px_scatter full ''PC1'' ''PC2'' ''Cluster''
                   [''calories'', ''protein'', ''category'', ''servings_numeric''] of
              Inl e \<Rightarrow> raise e s1
            | Inr pts \<Rightarrow> emit (ScatterChart ''Recipe Clusters Reduced with PCA'' pts) s1)
         else
           emit (Write ''Unique values in high_traffic for current display_data:'')
             (emit (WarningBox pca_warning) s1))"

text \<open>Line 161 stands at top level: it runs on every path that reaches the end.\<close>

definition final_write :: "run \<Rightarrow> run" where
  "final_write s =
     (case getcol (heap s ! display_data s) ''high_traffic'' of
        Inl e \<Rightarrow> raise e s
      | Inr c \<Rightarrow> emit (WriteCounts (value_counts c)) s)"

definition script :: "(cell \<Rightarrow> string) \<Rightarrow> (string \<rightharpoonup> dataframe) \<Rightarrow> string \<Rightarrow> run" where
  "script fmt files sel = step final_write (step pca_section (after_traffic fmt files sel))"

section \<open>The input contract and sample inputs\<close>

text \<open>
  The input contract of the dashboard: the required columns are present and the numeric
  fields (and the one-hot traffic columns, where they exist) hold no text.
\<close>

definition required_columns :: "string list" where
  "required_columns = ''Cluster'' # nutrition_columns @ [''category'']"

definition numeric_column :: "dataframe \<Rightarrow> string \<Rightarrow> bool" where
  "numeric_column df c = (\<not> list_ex (\<lambda>r. is_txt (cell_of r c)) (rows df))"


definition recipe :: "cell \<Rightarrow> rat \<Rightarrow> cell \<Rightarrow> row" where
  "recipe cl cal cat =
     [(''Cluster'', cl), (''calories'', Num cal), (''carbohydrate'', Num 30), (''sugar'', Num 5),
      (''protein'', Num 12), (''servings_numeric'', Num 4), (''category'', cat)]"

text \<open>
  Python's \<^verbatim>\<open>str\<close> on the cells that the \<^verbatim>\<open>Cluster\<close> column of the samples holds: the
  cluster ids 0 to 3 as integers.
\<close>

definition print_small :: "cell \<Rightarrow> string" where
  "print_small c =
     (case c of
        Num q \<Rightarrow> (if q = 0 then ''0'' else if q = 1 then ''1'' else if q = 2 then ''2'' else ''3'')
      | Flag b \<Rightarrow> (if b then ''True'' else ''False'')
      | _ \<Rightarrow> [])"

definition only_file :: "dataframe \<Rightarrow> (string \<rightharpoonup> dataframe)" where
  "only_file df = (\<lambda>p. if p = csv_path then Some df else None)"

definition no_file :: "string \<rightharpoonup> dataframe" where
  "no_file = (\<lambda>p. None)"

text \<open>A table with every optional column.\<close>

definition full_sample :: dataframe where
  "full_sample =
     \<lparr>columns = required_columns @ [''high_traffic'', ''PC1'', ''PC2''],
      rows = [recipe (Num 0) 100 (Txt ''Pork'') @
                [(''high_traffic'', Txt ''High''), (''PC1'', Num 1), (''PC2'', Num 2)],
              recipe (Num 1) 200 (Txt ''Dessert'') @
                [(''high_traffic'', NaN), (''PC1'', Num 3), (''PC2'', Num 4)],
              recipe (Num 0) 300 (Txt ''Pork'') @
                [(''high_traffic'', Txt ''High''), (''PC1'', Num 5), (''PC2'', Num 6)]]\<rparr>"

text \<open>A table whose only recipe has no category, and the view a run shows of it.\<close>

definition uncategorised :: dataframe where
  "uncategorised =
     \<lparr>columns = required_columns @ [''high_traffic''],
      rows = [recipe (Num 0) 100 NaN @ [(''high_traffic'', Txt ''High'')]]\<rparr>"

definition uncategorised_view :: dataframe where
  "uncategorised_view =
     heap (viewed print_small (only_file uncategorised) ''0'') !
       display_data (viewed print_small (only_file uncategorised) ''0'')"






text \<open>A table with the required columns and no optional one.\<close>

definition bare_sample :: dataframe where
  "bare_sample =
     \<lparr>columns = required_columns,
      rows = [recipe (Num 0) 100 (Txt ''Pork''), recipe (Num 1) 200 (Txt ''Dessert'')]\<rparr>"

section \<open>The store and the page during a run\<close>

text \<open>
  \<open>extends s t\<close>: \<open>t\<close> continues \<open>s\<close>. Every table of the store of \<open>s\<close> is in the store of
  \<open>t\<close> at its address with the same content, \<^verbatim>\<open>df_clustered\<close> names the same object, and
  the page of \<open>t\<close> starts with the page of \<open>s\<close>.
\<close>

definition extends :: "run \<Rightarrow> run \<Rightarrow> bool" where
  "extends s t =
     (df_clustered t = df_clustered s \<and> take (length (heap s)) (heap t) = heap s \<and>
      take (length (emitted s)) (emitted t) = emitted s)"

text \<open>
  \<open>running_on full view s\<close>: the run is under way and its variables \<^verbatim>\<open>df_clustered\<close> and
  \<^verbatim>\<open>display_data\<close> name the tables \<open>full\<close> and \<open>view\<close>.
\<close>

definition running_on :: "dataframe \<Rightarrow> dataframe \<Rightarrow> run \<Rightarrow> bool" where
  "running_on full view s =
     (status s = Running \<and> df_clustered s < length (heap s) \<and> display_data s < length (heap s) \<and>
      heap s ! df_clustered s = full \<and> heap s ! display_data s = view)"


section \<open>Properties\<close>

subsection \<open>The loader\<close>

text \<open>
  C6. When the CSV file does not exist, the loader shows an error and halts the run: the
  page holds the error box and nothing else (no chart, no table), for every selection.
\<close>

theorem missing_file_halts:
  "files csv_path = None \<Longrightarrow>
     emitted (script fmt files sel) =
       [ErrorBox (''Error: The file '' @ quoted csv_path @
          '' was not found. Make sure the CSV is in the same folder as this script.'')] \<and>
     status (script fmt files sel) = Stopped \<and> heap (script fmt files sel) = []"
  by (simp add: script_def after_traffic_def before_traffic_def viewed_def prepared_def
      loaded_def load_data_def step_def emit_def start_def)

theorem missing_file_halts_witness:
  "no_file csv_path = None \<and>
   emitted (script print_small no_file ''All'') =
     [ErrorBox (''Error: The file '' @ quoted csv_path @
        '' was not found. Make sure the CSV is in the same folder as this script.'')] \<and>
   status (script print_small no_file ''All'') = Stopped"
  using missing_file_halts [of no_file print_small "''All''"] by (simp add: no_file_def)

subsection \<open>Average nutrition\<close>

text \<open>
  C10. The two branches of the test of line 69 compute the same function of the view:
  whichever selection was made, the averages are the means of the five nutrition columns
  of \<^verbatim>\<open>display_data\<close>.
\<close>

theorem avg_branches_agree:
  "avg_branch_all view = avg_branch_cluster view \<and>
   avg_numeric_features sel view = mean_of_columns nutrition_columns view"
  by (simp add: avg_branch_all_def avg_branch_cluster_def avg_numeric_features_def)

theorem avg_branches_agree_witness:
  "avg_branch_all full_sample = avg_branch_cluster full_sample \<and>
   avg_numeric_features ''All'' full_sample = avg_numeric_features ''0'' full_sample"
  using avg_branches_agree [of full_sample "''All''"] avg_branches_agree [of full_sample "''0''"]
  by simp

subsection \<open>The store and the page only grow\<close>

lemma emit_fields [simp]:
  "heap (emit e s) = heap s" "df_clustered (emit e s) = df_clustered s"
  "display_data (emit e s) = display_data s" "status (emit e s) = status s"
  "emitted (emit e s) = emitted s @ [e]"
  by (simp_all add: emit_def)

lemma raise_fields [simp]:
  "heap (raise e s) = heap s" "df_clustered (raise e s) = df_clustered s"
  "display_data (raise e s) = display_data s" "status (raise e s) = Raised e"
  "emitted (raise e s) = emitted s"
  by (simp_all add: raise_def)

lemma new_frame_fields [simp]:
  "heap (new_frame df s) = heap s @ [df]" "df_clustered (new_frame df s) = df_clustered s"
  "display_data (new_frame df s) = display_data s" "status (new_frame df s) = status s"
  "emitted (new_frame df s) = emitted s"
  by (simp_all add: new_frame_def)

lemma take_prefix_trans:
  "take (length xs) ys = xs \<Longrightarrow> take (length ys) zs = ys \<Longrightarrow> take (length xs) zs = xs"
proof -
  assume xy: "take (length xs) ys = xs" and yz: "take (length ys) zs = ys"
  have le: "length xs \<le> length ys"
  proof -
    have "length xs = length (take (length xs) ys)" using xy by simp
    then show ?thesis by simp
  qed
  have "take (length xs) zs = take (length xs) (take (length ys) zs)"
    using le by (simp add: min_def)
  then show ?thesis using xy yz by simp
qed

lemma extends_refl [simp]: "extends s s"
  by (simp add: extends_def)

lemma extends_trans: "extends s t \<Longrightarrow> extends t u \<Longrightarrow> extends s u"
  unfolding extends_def
  using take_prefix_trans [of "heap s" "heap t" "heap u"]
    take_prefix_trans [of "emitted s" "emitted t" "emitted u"]
  by simp

lemma extends_nth: "extends s t \<Longrightarrow> a < length (heap s) \<Longrightarrow> heap t ! a = heap s ! a"
proof -
  assume e: "extends s t" and a: "a < length (heap s)"
  have "heap s ! a = take (length (heap s)) (heap t) ! a" using e by (simp add: extends_def)
  also have "\<dots> = heap t ! a" using a by simp
  finally show ?thesis by simp
qed


lemma extends_emit [simp]: "extends s t \<Longrightarrow> extends s (emit e t)"
  using extends_trans [of s t "emit e t"] by (simp add: extends_def)

lemma extends_raise [simp]: "extends s t \<Longrightarrow> extends s (raise e t)"
  by (simp add: extends_def)

lemma extends_new_frame [simp]: "extends s t \<Longrightarrow> extends s (new_frame df t)"
  using extends_trans [of s t "new_frame df t"] by (simp add: extends_def)

lemma extends_step: "extends s (f s) \<Longrightarrow> extends s (step f s)"
  by (simp add: step_def)

lemma extends_show_chart [simp]: "extends s t \<Longrightarrow> extends s (show_chart fig a x y t)"
  by (simp add: show_chart_def split: sum.splits)

lemma extends_set_columns_fresh:
  "extends s t \<Longrightarrow> extends s (set_columns (length (heap t)) names (new_frame df t))"
proof -
  assume st: "extends s t"
  have "extends t (set_columns (length (heap t)) names (new_frame df t))"
    by (simp add: set_columns_def extends_def)
  then show ?thesis using st extends_trans by blast
qed

lemma extends_chart_of_series [simp]:
  "extends s t \<Longrightarrow> extends s (chart_of_series fig a b x y series t)"
  by (simp add: chart_of_series_def Let_def step_def extends_set_columns_fresh)

lemma extends_intro: "extends s (intro s)"
  by (simp add: intro_def)

lemma extends_cluster_summary: "extends s (cluster_summary s)"
  by (simp add: cluster_summary_def Let_def split: sum.splits)

lemma extends_selector: "extends s (selector s)"
  by (simp add: selector_def Let_def split: sum.splits)

lemma extends_select_view: "extends s (select_view sel s)"
  by (simp add: select_view_def extends_def Let_def split: sum.splits)

lemma extends_averages: "extends s (averages_section sel s)"
  by (simp add: averages_section_def Let_def split: sum.splits)

lemma extends_category: "extends s (category_section sel s)"
  by (simp add: category_section_def Let_def split: sum.splits)

lemma extends_fallback [simp]: "extends s t \<Longrightarrow> extends s (traffic_fallback sel t)"
  by (simp add: traffic_fallback_def Let_def split: sum.splits)

lemma extends_traffic: "extends s (traffic_section sel s)"
  by (simp add: traffic_section_def Let_def split: sum.splits)

lemma extends_pca: "extends s (pca_section s)"
  by (simp add: pca_section_def Let_def split: sum.splits)

lemma extends_final: "extends s (final_write s)"
  by (simp add: final_write_def split: sum.splits)

lemma extends_then: "(\<And>u. extends u (f u)) \<Longrightarrow> extends s t \<Longrightarrow> extends s (step f t)"
  using extends_trans [of s t "step f t"] extends_step [of t f] by blast

lemma extends_script: "extends (loaded fmt files) (script fmt files sel)"
  unfolding script_def after_traffic_def before_traffic_def viewed_def prepared_def
  by (intro extends_then extends_refl extends_final extends_pca extends_traffic
      extends_category extends_averages extends_select_view extends_selector
      extends_cluster_summary extends_intro)

lemma step_skip: "status s \<noteq> Running \<Longrightarrow> step f s = s"
  by (simp add: step_def)

lemma script_skip: "status (loaded fmt files) \<noteq> Running \<Longrightarrow> script fmt files sel = loaded fmt files"
  by (simp add: script_def after_traffic_def before_traffic_def viewed_def prepared_def step_skip)

lemma loaded_heap:
  "files csv_path = Some df \<Longrightarrow>
     length (heap (loaded fmt files)) = 1 \<and> df_clustered (loaded fmt files) = 0"
  by (simp add: loaded_def load_data_def start_def step_def convert_cluster_def Let_def
      split: sum.splits)

lemma loaded_none: "files csv_path = None \<Longrightarrow> status (loaded fmt files) = Stopped"
  by (simp add: loaded_def load_data_def start_def step_def)

text \<open>
  C9. Whatever the selection, a run leaves the source table as loading made it (lines 22
  to 24): at the end \<^verbatim>\<open>df_clustered\<close> names the same object, and that object holds the
  same columns, rows and values. This also holds on the path of line 61, where
  \<^verbatim>\<open>display_data\<close> is that very object, and on the paths that raise.
\<close>

theorem source_table_unchanged:
  "df_clustered (script fmt files sel) = df_clustered (loaded fmt files) \<and>
   heap (script fmt files sel) ! df_clustered (script fmt files sel) =
     heap (loaded fmt files) ! df_clustered (loaded fmt files)"
proof (cases "files csv_path")
  case None
  then have "script fmt files sel = loaded fmt files"
    using loaded_none [of files fmt] script_skip [of fmt files sel] by simp
  then show ?thesis by simp
next
  case (Some df)
  have ext: "extends (loaded fmt files) (script fmt files sel)"
    by (rule extends_script)
  have "df_clustered (loaded fmt files) < length (heap (loaded fmt files))"
    using Some loaded_heap [of files df fmt] by simp
  then show ?thesis
    using ext extends_nth [OF ext] by (simp add: extends_def)
qed

theorem source_table_unchanged_witness:
  "display_data (script print_small (only_file full_sample) ''All'') =
     df_clustered (script print_small (only_file full_sample) ''All'') \<and>
   heap (script print_small (only_file full_sample) ''All'') !
       df_clustered (script print_small (only_file full_sample) ''All'') =
     heap (loaded print_small (only_file full_sample)) ! 0"
proof -
  have a: "df_clustered (loaded print_small (only_file full_sample)) = 0"
    by code_simp
  have b: "display_data (script print_small (only_file full_sample) ''All'') = 0"
    by code_simp
  show ?thesis
    using source_table_unchanged [of print_small "only_file full_sample" "''All''"] a b
    by auto
qed

subsection \<open>Category proportions\<close>

lemma sum_list_insort_key:
  "sum_list (map g (insort_key f x xs)) = g x + sum_list (map g xs)"
  for g :: "'a \<Rightarrow> 'b::comm_monoid_add"
  by (induction xs) (simp_all add: ac_simps)

lemma sum_list_sort_key:
  "sum_list (map g (sort_key f xs)) = sum_list (map g xs)"
  for g :: "'a \<Rightarrow> 'b::comm_monoid_add"
  by (induction xs) (simp_all add: sum_list_insort_key)

lemma set_unique [simp]: "set (unique xs) = set xs"
  by (simp add: unique_def)

lemma distinct_unique [simp]: "distinct (unique xs)"
  by (simp add: unique_def)

lemma sum_count_unique: "sum_list (map (count_list xs) (unique xs)) = length xs"
proof -
  have "sum_list (map (count_list xs) (unique xs)) = sum (count_list xs) (set (unique xs))"
    by (rule sum_list_distinct_conv_sum_set) simp
  also have "\<dots> = length xs"
    by (simp add: sum_count_set)
  finally show ?thesis .
qed

lemma value_counts_total: "sum_list (map snd (value_counts cs)) = length (dropna cs)"
proof -
  have "sum_list (map snd (value_counts cs)) =
        sum_list (map snd (map (\<lambda>v. (v, count_list (dropna cs) v)) (unique (dropna cs))))"
    by (simp add: value_counts_def Let_def sum_list_sort_key)
  also have "\<dots> = sum_list (map (count_list (dropna cs)) (unique (dropna cs)))"
    by (simp add: comp_def)
  finally show ?thesis by (simp add: sum_count_unique)
qed

lemma sum_list_scaled:
  "sum_list (map (\<lambda>p. of_nat (snd p) / t) vc) = of_nat (sum_list (map snd vc)) / t"
  for t :: rat
  by (induction vc) (auto simp: add_divide_distrib)

lemma normalized_total:
  "sum_list (map snd (value_counts_normalized cs)) = (if dropna cs = [] then 0 else 1)"
proof -
  have "map snd (value_counts_normalized cs) =
        map (\<lambda>p. of_nat (snd p) / of_nat (length (dropna cs))) (value_counts cs)"
    by (simp add: value_counts_normalized_def Let_def value_counts_total case_prod_unfold)
  then show ?thesis
    by (simp add: sum_list_scaled value_counts_total)
qed

lemma dropna_nonempty: "dropna (map f rs) \<noteq> [] \<longleftrightarrow> list_ex (\<lambda>r. f r \<noteq> NaN) rs"
  by (induction rs) (simp_all add: dropna_def)

text \<open>
  C8, as the code has it. \<^verbatim>\<open>value_counts(normalize=True)\<close> leaves missing values out
  and divides by the number of values that are left: for every view in which at least one
  row has a category, the proportions of the category chart sum to exactly 1.
\<close>

theorem category_proportions_sum_to_one:
  "''category'' \<in> set (columns view) \<Longrightarrow>
   list_ex (\<lambda>r. cell_of r ''category'' \<noteq> NaN) (rows view) \<Longrightarrow>
     \<exists>props. category_counts view = Inr props \<and> sum_list (map snd props) = 1"
  using dropna_nonempty [of "\<lambda>r. cell_of r ''category''" "rows view"]
  by (simp add: category_counts_def getcol_def normalized_total)

theorem category_proportions_sum_to_one_witness:
  "''category'' \<in> set (columns full_sample) \<and>
   list_ex (\<lambda>r. cell_of r ''category'' \<noteq> NaN) (rows full_sample) \<and>
   (\<exists>props. category_counts full_sample = Inr props \<and> sum_list (map snd props) = 1)"
proof -
  have a: "''category'' \<in> set (columns full_sample)"
    by code_simp
  have b: "list_ex (\<lambda>r. cell_of r ''category'' \<noteq> NaN) (rows full_sample)"
    by code_simp
  show ?thesis
    using a b category_proportions_sum_to_one [OF a b] by blast
qed

text \<open>
  C8 as stated fails: a view can have rows and no category at all. The run on the table
  \<open>uncategorised\<close> with cluster 0 selected shows a one-row view, its category chart is empty
  and the proportions sum to 0.
\<close>

theorem category_proportions_counterexample:
  "rows uncategorised_view \<noteq> [] \<and>
   map_sum id (sum_list \<circ> map snd) (category_counts uncategorised_view) = Inr 0 \<and>
   BarChart ''Proportion of Recipe Categories (Cluster 0)'' []
     \<in> set (emitted (script print_small (only_file uncategorised) ''0''))"
  by code_simp

subsection \<open>Cells and line 24\<close>

lemma cell_of_set_cell: "cell_of (set_cell c v r) c' = (if c' = c then v else cell_of r c')"
  by (induction r) (auto simp: cell_of_def)

lemma zip_with_image: "zip xs (map f xs) = map (\<lambda>x. (x, f x)) xs"
  by (induction xs) simp_all

lemma cluster_as_str_ok:
  "''Cluster'' \<in> set (columns df) \<Longrightarrow>
     cluster_as_str fmt df =
       Inr \<lparr>columns = columns df,
            rows = map (\<lambda>r. set_cell ''Cluster'' (Txt (astype_str fmt (cell_of r ''Cluster''))) r)
                     (rows df)\<rparr>"
  by (simp add: cluster_as_str_def getcol_def assign_col_def zip_with_image comp_def)

lemma cluster_as_str_missing:
  "''Cluster'' \<notin> set (columns df) \<Longrightarrow> cluster_as_str fmt df = Inl (KeyError ''Cluster'')"
  by (simp add: cluster_as_str_def getcol_def)



lemma converted_cluster_column:
  "cluster_as_str fmt df = Inr T \<Longrightarrow>
     map (\<lambda>r. cell_of r ''Cluster'') (rows T) =
       map (\<lambda>r. Txt (astype_str fmt (cell_of r ''Cluster''))) (rows df)"
  by (cases "''Cluster'' \<in> set (columns df)")
    (auto simp: cluster_as_str_ok cluster_as_str_missing cell_of_set_cell)


lemma converted_length: "cluster_as_str fmt df = Inr T \<Longrightarrow> length (rows T) = length (rows df)"
proof -
  assume "cluster_as_str fmt df = Inr T"
  then have "length (map (\<lambda>r. cell_of r ''Cluster'') (rows T)) =
             length (map (\<lambda>r. Txt (astype_str fmt (cell_of r ''Cluster''))) (rows df))"
    by (simp only: converted_cluster_column)
  then show ?thesis by simp
qed

subsection \<open>Labels\<close>



lemma those_map_some: "those (map f xs) = Some ys \<Longrightarrow> map f xs = map Some ys"
  by (induction xs arbitrary: ys) (auto split: option.splits)


subsection \<open>Counting\<close>















subsection \<open>Statements of the script, one by one\<close>

lemma running_on_emit [simp]: "running_on T V (emit e s) = running_on T V s"
  by (simp add: running_on_def)

lemma running_on_new_frame [simp]: "running_on T V s \<Longrightarrow> running_on T V (new_frame F s)"
  by (simp add: running_on_def nth_append)


lemma chart_of_series_vars [simp]:
  "display_data (chart_of_series fig a b x y series s) = display_data s"
  "df_clustered (chart_of_series fig a b x y series s) = df_clustered s"
  by (simp_all add: chart_of_series_def Let_def step_def set_columns_def show_chart_def
      split: sum.splits)






lemma numeric_column_alt:
  "numeric_column df c \<longleftrightarrow> \<not> list_ex is_txt (map (\<lambda>r. cell_of r c) (rows df))"
  by (simp add: numeric_column_def list_ex_iff)


lemma sum_series_ok:
  "numeric_column V c \<Longrightarrow> \<exists>q. sum_series (map (\<lambda>r. cell_of r c) (rows V)) = Inr q"
  by (simp add: numeric_column_alt sum_series_def numeric_values_def)



subsection \<open>Sections on a run that is under way\<close>

















lemma intro_running [simp]: "running_on T V (intro s) = running_on T V s"
  by (simp add: intro_def)


subsection \<open>The run on a table that has its Cluster column\<close>









subsection \<open>The run on an input that keeps the contract\<close>







subsection \<open>Only the projection section shows a scatter chart\<close>















subsection \<open>The view\<close>




subsection \<open>Cluster counts\<close>



subsection \<open>The traffic section\<close>




text \<open>
  C5. When the table that \<^verbatim>\<open>df_clustered\<close> names has neither a \<^verbatim>\<open>high_traffic\<close> nor a
  \<^verbatim>\<open>high_traffic_High\<close> column, the traffic section shows its subheader and the
  informational notice and nothing else: no chart, no new table, no exception.
\<close>

theorem traffic_notice_only:
  assumes "''high_traffic'' \<notin> set (columns (heap s ! df_clustered s))"
    and "''high_traffic_High'' \<notin> set (columns (heap s ! df_clustered s))"
  shows "traffic_section sel s =
           emit (InfoBox traffic_notice)
             (emit (Subheader (''High Traffic Distribution'' @ chart_title_suffix sel)) s)"
  using assms by (simp add: traffic_section_def Let_def)

theorem traffic_notice_only_witness:
  "''high_traffic'' \<notin> set (columns
      (heap (before_traffic print_small (only_file bare_sample) ''All'') !
         df_clustered (before_traffic print_small (only_file bare_sample) ''All''))) \<and>
   ''high_traffic_High'' \<notin> set (columns
      (heap (before_traffic print_small (only_file bare_sample) ''All'') !
         df_clustered (before_traffic print_small (only_file bare_sample) ''All''))) \<and>
   status (before_traffic print_small (only_file bare_sample) ''All'') = Running \<and>
   traffic_section ''All'' (before_traffic print_small (only_file bare_sample) ''All'') =
     emit (InfoBox traffic_notice)
       (emit (Subheader (''High Traffic Distribution'' @ chart_title_suffix ''All''))
          (before_traffic print_small (only_file bare_sample) ''All''))"
proof -
  have a: "''high_traffic'' \<notin> set (columns
      (heap (before_traffic print_small (only_file bare_sample) ''All'') !
         df_clustered (before_traffic print_small (only_file bare_sample) ''All'')))"
    by code_simp
  have b: "''high_traffic_High'' \<notin> set (columns
      (heap (before_traffic print_small (only_file bare_sample) ''All'') !
         df_clustered (before_traffic print_small (only_file bare_sample) ''All'')))"
    by code_simp
  have c: "status (before_traffic print_small (only_file bare_sample) ''All'') = Running"
    by code_simp
  show ?thesis
    using a b c traffic_notice_only [OF a b, of "''All''"] by (intro conjI)
qed

subsection \<open>The projection scatter\<close>



subsection \<open>The closing write\<close>




end
